theory Spec2Isabelle
  imports Main "HOL-Library.Word"
begin

section \<open>The provider adapter of src/services/gemini.ts\<close>

text \<open>
  The module is a thin adapter over the @google/genai client: a lazily created module
  level client, one constant tool declaration, and four exported operations that build a
  request object and hand it to the client. The embedding keeps the shapes of the
  request objects as records, threads the module state and the observable effects
  (requests handed to the client, lines written with console.error) through a
  \<open>world\<close> record, and takes the two things the module cannot decide itself as
  parameters: what the provider answers, and what the host's FileReader does with a blob.
  A thrown or rejected JavaScript value is \<open>Inl\<close> of a sum; the type \<open>'e\<close> of
  thrown values is left open. Every operation runs to completion before the next one
  starts (sequential execution).
\<close>

subsection \<open>Request and response shapes (types of @google/genai)\<close>

text \<open>A Part: the two shapes the module builds, \<open>{ text }\<close> and
  \<open>{ inlineData: { mimeType, data } }\<close>. The \<open>data\<close> field holds whatever
  \<open>blobToBase64\<close> resolved with, which can be \<open>undefined\<close> (\<open>None\<close>).\<close>

datatype part =
    Text string
  | InlineData (mimeType: string) (data: "string option")

text \<open>A Content: \<open>{ role?, parts }\<close>; one turn of a history, and the envelope of a
  one-shot request.\<close>

record content =
  role :: "string option"
  parts :: "part list"

text \<open>The enum \<open>Type\<close> and the schema objects of a function declaration.\<close>

datatype schema_type =
  TYPE_UNSPECIFIED | STRING | NUMBER | INTEGER | BOOLEAN | ARRAY | OBJECT | NULL

datatype schema =
  Schema (schema_type: schema_type) (schema_description: "string option")
         (properties: "(string \<times> schema) list") (required: "string list")

record functionDeclaration =
  name :: string
  description :: string
  parameters :: schema

record tool =
  functionDeclarations :: "functionDeclaration list"

text \<open>The \<open>config\<close> object of a request; a field the object literal does not mention
  is \<open>None\<close>.\<close>

record generateContentConfig =
  systemInstruction :: "string option"
  tools :: "tool list option"
  responseMimeType :: "string option"
  responseSchema :: "schema option"

text \<open>The argument of \<open>models.generateContent\<close>.\<close>

record generateContentParameters =
  model :: string
  contents :: content
  config :: "generateContentConfig option"

text \<open>The argument of \<open>chats.create\<close>; \<open>history\<close> is the optional parameter of
  \<open>createChatSession\<close>, passed on as it came.\<close>

record createChatParameters =
  chat_model :: string
  history :: "content list option"
  chat_config :: "generateContentConfig option"

text \<open>The provider's response: the module reads its \<open>text\<close> getter
  (\<open>string | undefined\<close>); the rest is opaque to it.\<close>

record 'r generateContentResponse =
  response_text :: "string option"
  raw :: 'r

text \<open>The client object: the credential it was built from, and its identity (the number
  of clients constructed before it).\<close>

record googleGenAI =
  apiKey :: "string option"
  oid :: nat

text \<open>What leaves the module: a call of \<open>chats.create\<close> or of
  \<open>models.generateContent\<close> on a client, with its argument.\<close>

datatype outbound =
    Chats_create googleGenAI createChatParameters
  | Models_generateContent googleGenAI generateContentParameters

text \<open>The provider, as a parameter: what each entry point answers to the \<open>n\<close>-th
  request it receives (so the same request may be answered differently at different
  times). \<open>Inl e\<close>: the call throws, or its promise rejects, with \<open>e\<close>.\<close>

record ('e, 'c, 'r) provider =
  chats_create :: "nat \<Rightarrow> googleGenAI \<Rightarrow> createChatParameters \<Rightarrow> 'e + 'c"
  models_generateContent ::
    "nat \<Rightarrow> googleGenAI \<Rightarrow> generateContentParameters \<Rightarrow> 'e + 'r generateContentResponse"

text \<open>A Blob: its declared MIME type (the empty string when unspecified) and its bytes.\<close>

record blob =
  blob_type :: string
  bytes :: "8 word list"

text \<open>The host's FileReader, as a parameter: \<open>readAsDataURL\<close> ends either with the
  result string or with an error event.\<close>

datatype 'e read_outcome = Loaded string | Failed 'e

type_synonym 'e fileReader = "blob \<Rightarrow> 'e read_outcome"

subsection \<open>Module state and effects\<close>

text \<open>
  \<open>GEMINI_API_KEY\<close> is \<open>process.env.GEMINI_API_KEY\<close>; \<open>ai\<close> is the module
  variable of line 4; \<open>constructed\<close> counts the evaluations of
  \<open>new GoogleGenAI\<close>; \<open>sent\<close> lists the requests handed to the client, oldest
  first; \<open>console\<close> lists the calls of \<open>console.error\<close>.
\<close>

record 'e world =
  GEMINI_API_KEY :: "string option"
  ai :: "googleGenAI option"
  constructed :: nat
  sent :: "outbound list"
  console :: "(string \<times> 'e) list"

text \<open>The state when the module has just been loaded (\<open>let ai = null\<close>).\<close>

definition init :: "string option \<Rightarrow> 'e world" where
  "init key = \<lparr>GEMINI_API_KEY = key, ai = None, constructed = 0, sent = [], console = []\<rparr>"

text \<open>Modelled from the spec: the constructor \<open>GoogleGenAI\<close> of @google/genai is not
  code of this repository. The spec says that constructing the handle only binds the
  credential, and that a missing credential is not a local validation error; so the
  constructor returns a new object holding the key it was given.\<close>

definition GoogleGenAI_new :: "string option \<Rightarrow> nat \<Rightarrow> googleGenAI" where
  "GoogleGenAI_new key n = \<lparr>apiKey = key, oid = n\<rparr>"

text \<open>Lines 6 to 11. An object is truthy, so \<open>!ai\<close> holds exactly when \<open>ai\<close> is
  \<open>null\<close>.\<close>

definition getAi :: "'e world \<Rightarrow> googleGenAI \<times> 'e world" where
  "getAi w =
     (case ai w of
        None \<Rightarrow>
          (let h = GoogleGenAI_new (GEMINI_API_KEY w) (constructed w)
           in (h, w\<lparr>ai := Some h, constructed := Suc (constructed w)\<rparr>))
      | Some h \<Rightarrow> (h, w))"

subsection \<open>The literals of the module\<close>

text \<open>Lines 14 to 27.\<close>

definition imageGenerationTool :: functionDeclaration where
  "imageGenerationTool =
     \<lparr>name = ''generate_image'',
      description = ''Call this function when the user asks to draw, generate, create, or make an image/picture/photo. Do not use for general questions.'',
      parameters =
        Schema OBJECT None
          [(''prompt'',
            Schema STRING (Some ''The detailed description of the image to generate.'') [] [])]
          [''prompt'']\<rparr>"

text \<open>The string literal of line 34, with its escapes read as JavaScript reads them
  (a line feed for \<open>\n\<close>, one backslash for two).\<close>

definition systemInstruction_literal :: string where
  "systemInstruction_literal =
     ''You are k-ite, an advanced AI assistant created by the k-ite team. Your primary directive is to identify solely as k-ite. You must NEVER claim to be Gemini, a Google product, or affiliated with Google in any way.'' @
     [CHR 0x0A] @
     [CHR 0x0A] @
     ''Key Behaviors:'' @
     [CHR 0x0A] @
     ''1. **Format & Layout**: Use Markdown extensively to create clean, readable layouts. Use Headers (#, ##) for sections, Bold (**) for emphasis, and Tables for structured data.'' @
     [CHR 0x0A] @
     ''2. **Math & Science**: You are an expert in Math. ALWAYS use LaTeX formatting for mathematical equations and symbols. Enclose inline math in single dollar signs ($...$) and block math in double dollar signs ($$...$$).'' @
     [CHR 0x0A] @
     ''   - Example: \"The area is $A = '' @
     [CHR 0x5C] @
     ''pi r^2$\"'' @
     [CHR 0x0A] @
     ''   - Example: \"$$'' @
     [CHR 0x5C] @
     ''int_{0}^{'' @
     [CHR 0x5C] @
     ''infty} x^2 dx$$\"'' @
     [CHR 0x0A] @
     ''3. **Tone**: Maintain a helpful, friendly, and concise tone matching your clean and airy interface.'' @
     [CHR 0x0A] @
     ''4. **Images**: If the user asks to generate an image, use the generate_image tool.''"

text \<open>The string literal of line 91.\<close>

definition transcription_instruction :: string where
  "transcription_instruction =
     ''Listen carefully to the audio. Transcribe the human speech to text (Vietnamese preferred). '' @
     [CHR 0x0A] @
     [CHR 0x0A] @
     ''CRITICAL RULE: If the audio contains NO human speech (e.g., only silence, background noise, static, typing sounds, breathing, or music without lyrics), output EXACTLY the string: [[NO_SPEECH]]'' @
     [CHR 0x0A] @
     [CHR 0x0A] @
     ''Do not output any other explanation.''"

subsection \<open>JavaScript operators the module uses\<close>

text \<open>\<open>a || b\<close> on a value that is a string or \<open>undefined\<close>: both \<open>undefined\<close>
  and the empty string are falsy.\<close>

definition js_or :: "string option \<Rightarrow> string \<Rightarrow> string" where
  "js_or a b = (case a of None \<Rightarrow> b | Some s \<Rightarrow> if s = [] then b else s)"

text \<open>\<open>s.split(sep)\<close> for a separator of one character: the pieces between the
  separators, in order; a string without the separator gives the one piece.\<close>

fun js_split :: "char \<Rightarrow> string \<Rightarrow> string list" where
  "js_split sep [] = [[]]"
| "js_split sep (c # cs) =
     (if c = sep then [] # js_split sep cs
      else (case js_split sep cs of
              [] \<Rightarrow> [[c]]
            | p # ps \<Rightarrow> (c # p) # ps))"

text \<open>\<open>xs[i]\<close>: \<open>undefined\<close> beyond the end of the array.\<close>

definition js_index :: "'a list \<Rightarrow> nat \<Rightarrow> 'a option" where
  "js_index xs i = (if i < length xs then Some (xs ! i) else None)"

subsection \<open>The operations\<close>

text \<open>Lines 29 to 38. \<open>chats.create\<close> is synchronous: the session, or a throw.\<close>

definition createChatSession ::
  "('e, 'c, 'r) provider \<Rightarrow> string \<Rightarrow> content list option \<Rightarrow> 'e world \<Rightarrow> ('e + 'c) \<times> 'e world"
where
  "createChatSession P model' history' w =
     (let (client, w1) = getAi w;
          request =
            \<lparr>chat_model = model',
             history = history',
             chat_config =
               Some \<lparr>systemInstruction = Some systemInstruction_literal,
                     tools = Some [\<lparr>functionDeclarations = [imageGenerationTool]\<rparr>],
                     responseMimeType = None,
                     responseSchema = None\<rparr>\<rparr>
      in (chats_create P (length (sent w1)) client request,
          w1\<lparr>sent := sent w1 @ [Chats_create client request]\<rparr>))"

text \<open>Lines 40 to 45. The async function returns the client's promise: it settles as
  that promise does.\<close>

definition generateContent ::
  "('e, 'c, 'r) provider \<Rightarrow> string \<Rightarrow> part list \<Rightarrow> 'e world
     \<Rightarrow> ('e + 'r generateContentResponse) \<times> 'e world"
where
  "generateContent P model' parts' w =
     (let (client, w1) = getAi w;
          request =
            \<lparr>model = model', contents = \<lparr>role = None, parts = parts'\<rparr>, config = None\<rparr>
      in (models_generateContent P (length (sent w1)) client request,
          w1\<lparr>sent := sent w1 @ [Models_generateContent client request]\<rparr>))"

text \<open>Lines 48 to 58.\<close>

definition generateImage ::
  "('e, 'c, 'r) provider \<Rightarrow> string \<Rightarrow> 'e world
     \<Rightarrow> ('e + 'r generateContentResponse) \<times> 'e world"
where
  "generateImage P prompt w =
     (let (client, w1) = getAi w;
          request =
            \<lparr>model = ''gemini-2.5-flash-image'',
             contents = \<lparr>role = None, parts = [Text prompt]\<rparr>,
             config = None\<rparr>
      in (models_generateContent P (length (sent w1)) client request,
          w1\<lparr>sent := sent w1 @ [Models_generateContent client request]\<rparr>))"

text \<open>
  Lines 61 to 72. When the read fails, the reader fires \<open>error\<close> and then
  \<open>loadend\<close>: \<open>onerror\<close> rejects the promise with the event, and the later
  \<open>onloadend\<close> (which throws on the \<open>null\<close> result, outside the promise) cannot
  settle it again. When the read succeeds, \<open>onloadend\<close> resolves the promise with
  element 1 of the split result, whatever that is.
\<close>

definition blobToBase64 :: "'e fileReader \<Rightarrow> blob \<Rightarrow> 'e + string option" where
  "blobToBase64 reader b =
     (case reader b of
        Failed ev \<Rightarrow> Inl ev
      | Loaded dataUrl \<Rightarrow> Inr (js_index (js_split (CHR '','') dataUrl) 1))"

text \<open>The value \<open>transcribeAudio\<close> resolves with: \<open>{ text }\<close>.\<close>

record transcript =
  transcript_text :: string

text \<open>Lines 77 to 97: the body of the \<open>try\<close> block. An \<open>await\<close> of a rejected
  promise throws the rejection value.\<close>

definition transcribeAudio_try ::
  "('e, 'c, 'r) provider \<Rightarrow> 'e fileReader \<Rightarrow> blob \<Rightarrow> 'e world \<Rightarrow> ('e + transcript) \<times> 'e world"
where
  "transcribeAudio_try P reader audioBlob w =
     (case blobToBase64 reader audioBlob of
        Inl e \<Rightarrow> (Inl e, w)
      | Inr base64Data \<Rightarrow>
          (let (client, w1) = getAi w;
               request =
                 \<lparr>model = ''gemini-3-flash-preview'',
                  contents =
                    \<lparr>role = None,
                     parts =
                       [InlineData (js_or (Some (blob_type audioBlob)) ''audio/webm'') base64Data,
                        Text transcription_instruction]\<rparr>,
                  config = None\<rparr>;
               w2 = w1\<lparr>sent := sent w1 @ [Models_generateContent client request]\<rparr>
           in (case models_generateContent P (length (sent w1)) client request of
                 Inl e \<Rightarrow> (Inl e, w2)
               | Inr response \<Rightarrow>
                   (Inr \<lparr>transcript_text = js_or (response_text response) ''''\<rparr>, w2))))"

text \<open>Lines 75 to 102: the \<open>try\<close> block with its \<open>catch\<close>.\<close>

definition transcribeAudio ::
  "('e, 'c, 'r) provider \<Rightarrow> 'e fileReader \<Rightarrow> blob \<Rightarrow> 'e world \<Rightarrow> ('e + transcript) \<times> 'e world"
where
  "transcribeAudio P reader audioBlob w =
     (case transcribeAudio_try P reader audioBlob w of
        (Inl e, w') \<Rightarrow>
          (Inr \<lparr>transcript_text = ''''\<rparr>,
           w'\<lparr>console := console w' @ [(''Gemini Transcription error'', e)]\<rparr>)
      | (Inr r, w') \<Rightarrow> (Inr r, w'))"

subsection \<open>A caller's invocations\<close>

text \<open>One invocation of an exported operation with its arguments, and what it gives
  back to the caller.\<close>

datatype call =
    CreateChatSession string "content list option"
  | GenerateContent string "part list"
  | GenerateImage string
  | TranscribeAudio blob

datatype ('c, 'r) reply =
    Session 'c
  | Response "'r generateContentResponse"
  | Transcript transcript

fun exec ::
  "('e, 'c, 'r) provider \<Rightarrow> 'e fileReader \<Rightarrow> call \<Rightarrow> 'e world \<Rightarrow> ('e + ('c, 'r) reply) \<times> 'e world"
where
  "exec P reader (CreateChatSession m h) w = apfst (map_sum id Session) (createChatSession P m h w)"
| "exec P reader (GenerateContent m ps) w = apfst (map_sum id Response) (generateContent P m ps w)"
| "exec P reader (GenerateImage prompt) w = apfst (map_sum id Response) (generateImage P prompt w)"
| "exec P reader (TranscribeAudio b) w = apfst (map_sum id Transcript) (transcribeAudio P reader b w)"

text \<open>Invocations one after the other, each on the state the one before left.\<close>

fun runs :: "('e, 'c, 'r) provider \<Rightarrow> 'e fileReader \<Rightarrow> call list \<Rightarrow> 'e world \<Rightarrow> 'e world" where
  "runs P reader [] w = w"
| "runs P reader (c # cs) w = runs P reader cs (snd (exec P reader c w))"

text \<open>The three operations without a \<open>try\<close>.\<close>

fun uncaught :: "call \<Rightarrow> bool" where
  "uncaught (TranscribeAudio b) = False"
| "uncaught c = True"

text \<open>Whether an invocation gets as far as \<open>getAi()\<close>: transcribeAudio awaits the
  encoding first.\<close>

fun calls_getAi :: "'e fileReader \<Rightarrow> call \<Rightarrow> bool" where
  "calls_getAi reader (TranscribeAudio b) =
     (case blobToBase64 reader b of Inl e \<Rightarrow> False | Inr d \<Rightarrow> True)"
| "calls_getAi reader c = True"

text \<open>What the provider answers to a request, as its \<open>n\<close>-th.\<close>

fun provider_answer ::
  "('e, 'c, 'r) provider \<Rightarrow> nat \<Rightarrow> outbound \<Rightarrow> 'e + ('c, 'r) reply"
where
  "provider_answer P n (Chats_create h rq) = map_sum id Session (chats_create P n h rq)"
| "provider_answer P n (Models_generateContent h rq) =
     map_sum id Response (models_generateContent P n h rq)"

text \<open>The client a request went through, and the request without it.\<close>

fun client_of :: "outbound \<Rightarrow> googleGenAI" where
  "client_of (Chats_create h rq) = h"
| "client_of (Models_generateContent h rq) = h"

datatype payload =
    Chat_payload createChatParameters
  | Generate_payload generateContentParameters

fun payload_of :: "outbound \<Rightarrow> payload" where
  "payload_of (Chats_create h rq) = Chat_payload rq"
| "payload_of (Models_generateContent h rq) = Generate_payload rq"

text \<open>The payloads of the requests one invocation adds to the log.\<close>

definition emitted ::
  "('e, 'c, 'r) provider \<Rightarrow> 'e fileReader \<Rightarrow> call \<Rightarrow> 'e world \<Rightarrow> payload list"
where
  "emitted P reader c w =
     map payload_of (drop (length (sent w)) (sent (snd (exec P reader c w))))"

text \<open>The states a run can be in: the credential is the one the module started with,
  every request sent so far went through the first client ever constructed, and either
  that client exists and is the only one constructed, or none has been constructed.\<close>

definition client_state :: "string option \<Rightarrow> bool \<Rightarrow> 'e world \<Rightarrow> bool" where
  "client_state key made w =
     (GEMINI_API_KEY w = key \<and>
      list_all (\<lambda>ob. client_of ob = GoogleGenAI_new key 0) (sent w) \<and>
      (if made then ai w = Some (GoogleGenAI_new key 0) \<and> constructed w = 1
       else ai w = None \<and> constructed w = 0))"

subsection \<open>Concrete providers, readers and blobs for the examples\<close>

definition failing_provider :: "(string, unit, unit) provider" where
  "failing_provider =
     \<lparr>chats_create = (\<lambda>n h rq. Inl ''quota exceeded''),
      models_generateContent = (\<lambda>n h rq. Inl ''quota exceeded'')\<rparr>"

text \<open>A provider that answers every request with the given text.\<close>

definition answering_provider :: "string option \<Rightarrow> (string, unit, unit) provider" where
  "answering_provider t =
     \<lparr>chats_create = (\<lambda>n h rq. Inr ()),
      models_generateContent = (\<lambda>n h rq. Inr \<lparr>response_text = t, raw = ()\<rparr>)\<rparr>"

definition failing_reader :: "string fileReader" where
  "failing_reader b = Failed ''NotReadableError''"

text \<open>A reader that gives a data URL as browsers build it (with a fixed payload).\<close>

definition dataUrl_reader :: "string fileReader" where
  "dataUrl_reader b =
     Loaded (''data:'' @ (if blob_type b = [] then ''application/octet-stream'' else blob_type b)
               @ '';base64,AAEC'')"

text \<open>A reader whose result has no comma.\<close>

definition commaless_reader :: "string fileReader" where
  "commaless_reader b = Loaded ''data:'' "

definition ogg_blob :: blob where
  "ogg_blob = \<lparr>blob_type = ''audio/ogg'', bytes = [0, 1, 2]\<rparr>"

definition untyped_blob :: blob where
  "untyped_blob = \<lparr>blob_type = [], bytes = [0, 1, 2]\<rparr>"

section \<open>Properties\<close>

subsection \<open>Each operation, unfolded\<close>

lemma getAi_sent: "sent (snd (getAi w)) = sent w"
  by (simp add: getAi_def Let_def split: option.split)

lemma getAi_console: "console (snd (getAi w)) = console w"
  by (simp add: getAi_def Let_def split: option.split)

lemma getAi_cases:
  "getAi w = (case ai w of
      None \<Rightarrow> (GoogleGenAI_new (GEMINI_API_KEY w) (constructed w),
                w\<lparr>ai := Some (GoogleGenAI_new (GEMINI_API_KEY w) (constructed w)),
                  constructed := Suc (constructed w)\<rparr>)
    | Some h \<Rightarrow> (h, w))"
  by (simp add: getAi_def Let_def split: option.split)

lemma createChatSession_eq:
  "createChatSession P m hist w =
     (let rq = \<lparr>chat_model = m, history = hist,
                chat_config =
                  Some \<lparr>systemInstruction = Some systemInstruction_literal,
                        tools = Some [\<lparr>functionDeclarations = [imageGenerationTool]\<rparr>],
                        responseMimeType = None, responseSchema = None\<rparr>\<rparr>
      in (chats_create P (length (sent w)) (fst (getAi w)) rq,
          (snd (getAi w))\<lparr>sent := sent w @ [Chats_create (fst (getAi w)) rq]\<rparr>))"
  by (simp add: createChatSession_def Let_def split_beta getAi_sent)

lemma generateContent_eq:
  "generateContent P m ps w =
     (let rq = \<lparr>model = m, contents = \<lparr>role = None, parts = ps\<rparr>, config = None\<rparr>
      in (models_generateContent P (length (sent w)) (fst (getAi w)) rq,
          (snd (getAi w))\<lparr>sent := sent w @ [Models_generateContent (fst (getAi w)) rq]\<rparr>))"
  by (simp add: generateContent_def Let_def split_beta getAi_sent)

lemma generateImage_eq:
  "generateImage P prompt w =
     (let rq = \<lparr>model = ''gemini-2.5-flash-image'',
                contents = \<lparr>role = None, parts = [Text prompt]\<rparr>, config = None\<rparr>
      in (models_generateContent P (length (sent w)) (fst (getAi w)) rq,
          (snd (getAi w))\<lparr>sent := sent w @ [Models_generateContent (fst (getAi w)) rq]\<rparr>))"
  by (simp add: generateImage_def Let_def split_beta getAi_sent)

lemma transcribeAudio_failed_read:
  "reader b = Failed ev \<Longrightarrow>
   transcribeAudio P reader b w =
     (Inr \<lparr>transcript_text = ''''\<rparr>,
      w\<lparr>console := console w @ [(''Gemini Transcription error'', ev)]\<rparr>)"
  by (simp add: transcribeAudio_def transcribeAudio_try_def blobToBase64_def)

lemma transcribeAudio_loaded:
  "reader b = Loaded dataUrl \<Longrightarrow>
   transcribeAudio P reader b w =
     (let rq = \<lparr>model = ''gemini-3-flash-preview'',
                contents =
                  \<lparr>role = None,
                   parts = [InlineData (js_or (Some (blob_type b)) ''audio/webm'')
                              (js_index (js_split (CHR '','') dataUrl) 1),
                            Text transcription_instruction]\<rparr>,
                config = None\<rparr>;
          w2 = (snd (getAi w))\<lparr>sent := sent w @ [Models_generateContent (fst (getAi w)) rq]\<rparr>
      in (case models_generateContent P (length (sent w)) (fst (getAi w)) rq of
            Inl e \<Rightarrow>
              (Inr \<lparr>transcript_text = ''''\<rparr>,
               w2\<lparr>console := console w @ [(''Gemini Transcription error'', e)]\<rparr>)
          | Inr response \<Rightarrow>
              (Inr \<lparr>transcript_text = js_or (response_text response) ''''\<rparr>, w2)))"
  by (simp add: transcribeAudio_def transcribeAudio_try_def blobToBase64_def Let_def split_beta
        getAi_sent getAi_console split: sum.split)

lemma js_or_empty: "js_or t [] = (case t of None \<Rightarrow> [] | Some s \<Rightarrow> s)"
  by (simp add: js_or_def split: option.split)

lemma js_or_Some: "js_or (Some s) d = (if s = [] then d else s)"
  by (simp add: js_or_def)

lemma transcribeAudio_loaded_ex:
  assumes "reader b = Loaded dataUrl"
  shows "\<exists>rq. sent (snd (transcribeAudio P reader b w)) =
                sent w @ [Models_generateContent (fst (getAi w)) rq] \<and>
              fst (transcribeAudio P reader b w) =
                (case models_generateContent P (length (sent w)) (fst (getAi w)) rq of
                   Inl e \<Rightarrow> Inr \<lparr>transcript_text = []\<rparr>
                 | Inr r \<Rightarrow> Inr \<lparr>transcript_text = js_or (response_text r) []\<rparr>) \<and>
              console (snd (transcribeAudio P reader b w)) =
                (case models_generateContent P (length (sent w)) (fst (getAi w)) rq of
                   Inl e \<Rightarrow> console w @ [(''Gemini Transcription error'', e)]
                 | Inr r \<Rightarrow> console w)"
  using assms
  by (simp add: transcribeAudio_loaded Let_def getAi_console split: sum.split)

lemma exec_uncaught:
  assumes "uncaught c"
  shows "\<exists>ob. sent (snd (exec P reader c w)) = sent w @ [ob] \<and>
              fst (exec P reader c w) = provider_answer P (length (sent w)) ob \<and>
              console (snd (exec P reader c w)) = console w \<and>
              client_of ob = fst (getAi w)"
  using assms
  by (cases c)
     (simp_all add: createChatSession_eq generateContent_eq generateImage_eq Let_def getAi_console)

lemma js_split_no_sep: "sep \<notin> set s \<Longrightarrow> js_split sep s = [s]"
  by (induction s) auto

subsection \<open>generateImage\<close>

text \<open>
  C1. For every prompt (and every provider and module state), generateImage hands the
  client exactly one request: its model is the literal 'gemini-2.5-flash-image' (the
  function has no model parameter, so no caller can supply another), its contents.parts
  is the one text part holding the prompt, and it has no config, hence neither a
  responseMimeType nor a responseSchema.
\<close>

theorem generateImage_request:
  "sent (snd (generateImage P prompt w)) =
     sent w @
     [Models_generateContent (fst (getAi w))
        \<lparr>model = ''gemini-2.5-flash-image'',
         contents = \<lparr>role = None, parts = [Text prompt]\<rparr>,
         config = None\<rparr>]"
  by (simp add: generateImage_def Let_def split_beta getAi_sent)

subsection \<open>transcribeAudio\<close>

text \<open>
  C2. transcribeAudio never throws: whatever the blob, the reader, the provider and the
  module state, it resolves with a record. When the read of the blob fails with \<open>ev\<close>,
  it resolves with \<open>{ text: "" }\<close>, sends nothing, and logs \<open>ev\<close> with
  console.error; when the read succeeds and the provider rejects the request with
  \<open>e\<close>, it resolves with \<open>{ text: "" }\<close> and logs \<open>e\<close>.
\<close>

theorem transcribeAudio_never_throws:
  "(\<exists>t. fst (transcribeAudio P reader b w) = Inr t) \<and>
   (reader b = Failed ev \<longrightarrow>
      transcribeAudio P reader b w =
        (Inr \<lparr>transcript_text = ''''\<rparr>,
         w\<lparr>console := console w @ [(''Gemini Transcription error'', ev)]\<rparr>)) \<and>
   (reader b = Loaded dataUrl \<and>
    provider_answer P (length (sent w)) (last (sent (snd (transcribeAudio P reader b w)))) = Inl e \<longrightarrow>
      fst (transcribeAudio P reader b w) = Inr \<lparr>transcript_text = ''''\<rparr> \<and>
      console (snd (transcribeAudio P reader b w)) =
        console w @ [(''Gemini Transcription error'', e)])"
proof (cases "reader b")
  case (Failed ev')
  then show ?thesis by (simp add: transcribeAudio_failed_read)
next
  case (Loaded u)
  then show ?thesis
    by (auto simp: transcribeAudio_loaded Let_def split: sum.splits)
qed

text \<open>
  C2 at two inputs: a reader that fails, and a reader that succeeds in front of a
  provider that rejects.
\<close>

theorem transcribeAudio_never_throws_witness:
  "failing_reader ogg_blob = Failed ''NotReadableError'' \<and>
   transcribeAudio failing_provider failing_reader ogg_blob (init None) =
     (Inr \<lparr>transcript_text = ''''\<rparr>,
      (init None)\<lparr>console := [(''Gemini Transcription error'', ''NotReadableError'')]\<rparr>) \<and>
   dataUrl_reader untyped_blob = Loaded ''data:application/octet-stream;base64,AAEC'' \<and>
   provider_answer failing_provider 0
     (last (sent (snd (transcribeAudio failing_provider dataUrl_reader untyped_blob (init None)))))
     = Inl ''quota exceeded'' \<and>
   fst (transcribeAudio failing_provider dataUrl_reader untyped_blob (init None)) =
     Inr \<lparr>transcript_text = ''''\<rparr> \<and>
   console (snd (transcribeAudio failing_provider dataUrl_reader untyped_blob (init None))) =
     [(''Gemini Transcription error'', ''quota exceeded'')]"
  using transcribeAudio_never_throws
          [of failing_provider failing_reader ogg_blob "init None" "''NotReadableError''"
              "''''" "''''"]
        transcribeAudio_never_throws
          [of failing_provider dataUrl_reader untyped_blob "init None" "''''"
              "''data:application/octet-stream;base64,AAEC''" "''quota exceeded''"]
  by (simp add: transcribeAudio_def transcribeAudio_try_def blobToBase64_def js_index_def js_or_def
        getAi_def init_def GoogleGenAI_new_def Let_def
        failing_provider_def failing_reader_def dataUrl_reader_def ogg_blob_def untyped_blob_def)

text \<open>
  C3. When the read succeeds and the provider answers the request with a response
  \<open>r\<close>, transcribeAudio resolves with \<open>{ text: t }\<close>, where \<open>t\<close> is the text of
  \<open>r\<close> when it has one and the empty string when it has none (a text that is the
  empty string is returned as the empty string); the sentinel '[[NO_SPEECH]]' comes
  back as it is.
\<close>

theorem transcribeAudio_text:
  assumes "reader b = Loaded dataUrl"
    and "provider_answer P (length (sent w)) (last (sent (snd (transcribeAudio P reader b w))))
           = Inr (Response r)"
  shows "fst (transcribeAudio P reader b w) =
           Inr \<lparr>transcript_text = (case response_text r of None \<Rightarrow> [] | Some t \<Rightarrow> t)\<rparr> \<and>
         (response_text r = Some ''[[NO_SPEECH]]'' \<longrightarrow>
            fst (transcribeAudio P reader b w) = Inr \<lparr>transcript_text = ''[[NO_SPEECH]]''\<rparr>)"
proof -
  from transcribeAudio_loaded_ex [where reader = reader and b = b and P = P and w = w, OF assms(1)]
  obtain rq where
    rq: "sent (snd (transcribeAudio P reader b w)) =
           sent w @ [Models_generateContent (fst (getAi w)) rq]"
        "fst (transcribeAudio P reader b w) =
           (case models_generateContent P (length (sent w)) (fst (getAi w)) rq of
              Inl e \<Rightarrow> Inr \<lparr>transcript_text = []\<rparr>
            | Inr r \<Rightarrow> Inr \<lparr>transcript_text = js_or (response_text r) []\<rparr>)"
    by blast
  from rq(1) have "last (sent (snd (transcribeAudio P reader b w))) =
      Models_generateContent (fst (getAi w)) rq"
    by simp
  with assms(2) have "models_generateContent P (length (sent w)) (fst (getAi w)) rq = Inr r"
    by (cases "models_generateContent P (length (sent w)) (fst (getAi w)) rq") simp_all
  with rq(2) have "fst (transcribeAudio P reader b w) =
      Inr \<lparr>transcript_text = (case response_text r of None \<Rightarrow> [] | Some t \<Rightarrow> t)\<rparr>"
    by (simp add: js_or_empty)
  then show ?thesis by simp
qed

text \<open>
  C3 at two inputs: a provider that answers with the sentinel, and one that answers
  without text.
\<close>

theorem transcribeAudio_text_witness:
  "dataUrl_reader untyped_blob = Loaded ''data:application/octet-stream;base64,AAEC'' \<and>
   provider_answer (answering_provider (Some ''[[NO_SPEECH]]'')) 0
     (last (sent (snd (transcribeAudio (answering_provider (Some ''[[NO_SPEECH]]''))
                         dataUrl_reader untyped_blob (init None)))))
     = Inr (Response \<lparr>response_text = Some ''[[NO_SPEECH]]'', raw = ()\<rparr>) \<and>
   fst (transcribeAudio (answering_provider (Some ''[[NO_SPEECH]]'')) dataUrl_reader untyped_blob
          (init None)) = Inr \<lparr>transcript_text = ''[[NO_SPEECH]]''\<rparr> \<and>
   provider_answer (answering_provider None) 0
     (last (sent (snd (transcribeAudio (answering_provider None)
                         dataUrl_reader untyped_blob (init None)))))
     = Inr (Response \<lparr>response_text = None, raw = ()\<rparr>) \<and>
   fst (transcribeAudio (answering_provider None) dataUrl_reader untyped_blob (init None)) =
     Inr \<lparr>transcript_text = ''''\<rparr>"
  using transcribeAudio_text
          [of dataUrl_reader untyped_blob "''data:application/octet-stream;base64,AAEC''"
              "answering_provider (Some ''[[NO_SPEECH]]'')" "init None"
              "\<lparr>response_text = Some ''[[NO_SPEECH]]'', raw = ()\<rparr>"]
        transcribeAudio_text
          [of dataUrl_reader untyped_blob "''data:application/octet-stream;base64,AAEC''"
              "answering_provider None" "init None"
              "\<lparr>response_text = None, raw = ()\<rparr>"]
  by (simp add: transcribeAudio_def transcribeAudio_try_def blobToBase64_def js_index_def js_or_def
        getAi_def init_def GoogleGenAI_new_def Let_def
        answering_provider_def dataUrl_reader_def untyped_blob_def)

text \<open>
  C8. When the read succeeds, the one request transcribeAudio sends has as its first
  part the inline data tagged with the blob's type when that is not the empty string,
  and with 'audio/webm' when it is; the second part is the fixed instruction.
\<close>

theorem transcribeAudio_mimeType:
  assumes "reader b = Loaded dataUrl"
  shows "sent (snd (transcribeAudio P reader b w)) =
           sent w @
           [Models_generateContent (fst (getAi w))
              \<lparr>model = ''gemini-3-flash-preview'',
               contents =
                 \<lparr>role = None,
                  parts =
                    [InlineData (if blob_type b = '''' then ''audio/webm'' else blob_type b)
                       (js_index (js_split (CHR '','') dataUrl) 1),
                     Text transcription_instruction]\<rparr>,
               config = None\<rparr>]"
  using assms
  by (simp add: transcribeAudio_loaded Let_def js_or_Some split: sum.split)

text \<open>
  C8 at two inputs: a blob of type 'audio/ogg' and a blob without a type.
\<close>

theorem transcribeAudio_mimeType_witness:
  "dataUrl_reader ogg_blob = Loaded ''data:audio/ogg;base64,AAEC'' \<and>
   sent (snd (transcribeAudio failing_provider dataUrl_reader ogg_blob (init None))) =
     [Models_generateContent \<lparr>apiKey = None, oid = 0\<rparr>
        \<lparr>model = ''gemini-3-flash-preview'',
         contents =
           \<lparr>role = None,
            parts = [InlineData ''audio/ogg'' (Some ''AAEC''), Text transcription_instruction]\<rparr>,
         config = None\<rparr>] \<and>
   dataUrl_reader untyped_blob = Loaded ''data:application/octet-stream;base64,AAEC'' \<and>
   sent (snd (transcribeAudio failing_provider dataUrl_reader untyped_blob (init None))) =
     [Models_generateContent \<lparr>apiKey = None, oid = 0\<rparr>
        \<lparr>model = ''gemini-3-flash-preview'',
         contents =
           \<lparr>role = None,
            parts = [InlineData ''audio/webm'' (Some ''AAEC''), Text transcription_instruction]\<rparr>,
         config = None\<rparr>]"
  using transcribeAudio_mimeType
          [of dataUrl_reader ogg_blob "''data:audio/ogg;base64,AAEC''" failing_provider "init None"]
        transcribeAudio_mimeType
          [of dataUrl_reader untyped_blob "''data:application/octet-stream;base64,AAEC''"
              failing_provider "init None"]
  by (simp add: transcribeAudio_def transcribeAudio_try_def blobToBase64_def js_index_def js_or_def
        getAi_def init_def GoogleGenAI_new_def Let_def
        failing_provider_def dataUrl_reader_def ogg_blob_def untyped_blob_def)

subsection \<open>blobToBase64\<close>

text \<open>
  C9. blobToBase64 rejects with \<open>ev\<close> exactly when the read fails with \<open>ev\<close>;
  when the read succeeds with a string that has no comma, it resolves with
  \<open>undefined\<close>: element 1 of the split result does not exist, and nothing checks
  that.
\<close>

theorem blobToBase64_outcomes:
  "(blobToBase64 reader b = Inl ev \<longleftrightarrow> reader b = Failed ev) \<and>
   (reader b = Loaded dataUrl \<and> CHR '','' \<notin> set dataUrl \<longrightarrow> blobToBase64 reader b = Inr None)"
  by (auto simp: blobToBase64_def js_split_no_sep js_index_def split: read_outcome.splits)

text \<open>
  C9 at two inputs: a reader whose result has no comma, and a reader that fails.
\<close>

theorem blobToBase64_outcomes_witness:
  "commaless_reader ogg_blob = Loaded ''data:'' \<and> CHR '','' \<notin> set ''data:'' \<and>
   blobToBase64 commaless_reader ogg_blob = Inr None \<and>
   failing_reader ogg_blob = Failed ''NotReadableError'' \<and>
   blobToBase64 failing_reader ogg_blob = Inl ''NotReadableError''"
  using blobToBase64_outcomes [of commaless_reader ogg_blob "''x''" "''data:''"]
        blobToBase64_outcomes [of failing_reader ogg_blob "''NotReadableError''" "''''"]
  by (simp add: commaless_reader_def failing_reader_def)

subsection \<open>createChatSession\<close>

text \<open>
  C4. For every model and every (optional) history, createChatSession hands the client
  one request whose config holds the fixed system instruction and a tool list of exactly
  one tool with exactly one function declaration, imageGenerationTool, whatever the
  model and the history are. That declaration is named 'generate_image'; its parameter
  schema is an object with the single property 'prompt', of type string, and 'prompt' is
  required.
\<close>

theorem createChatSession_config:
  "sent (snd (createChatSession P m hist w)) =
     sent w @
     [Chats_create (fst (getAi w))
        \<lparr>chat_model = m, history = hist,
         chat_config =
           Some \<lparr>systemInstruction = Some systemInstruction_literal,
                 tools = Some [\<lparr>functionDeclarations = [imageGenerationTool]\<rparr>],
                 responseMimeType = None, responseSchema = None\<rparr>\<rparr>] \<and>
   name imageGenerationTool = ''generate_image'' \<and>
   schema_type (parameters imageGenerationTool) = OBJECT \<and>
   map fst (properties (parameters imageGenerationTool)) = [''prompt''] \<and>
   map (schema_type \<circ> snd) (properties (parameters imageGenerationTool)) = [STRING] \<and>
   required (parameters imageGenerationTool) = [''prompt'']"
  by (simp add: createChatSession_eq Let_def imageGenerationTool_def)

subsection \<open>generateContent\<close>

text \<open>
  C5. For every model and every list of parts, generateContent hands the client exactly
  one request, with the model argument as its model and the parts argument, unchanged,
  as its contents.parts, and it settles as the provider's answer to that request does.
\<close>

theorem generateContent_forwards:
  "sent (snd (generateContent P m ps w)) =
     sent w @
     [Models_generateContent (fst (getAi w))
        \<lparr>model = m, contents = \<lparr>role = None, parts = ps\<rparr>, config = None\<rparr>] \<and>
   fst (generateContent P m ps w) =
     models_generateContent P (length (sent w)) (fst (getAi w))
       \<lparr>model = m, contents = \<lparr>role = None, parts = ps\<rparr>, config = None\<rparr>"
  by (simp add: generateContent_eq Let_def)

subsection \<open>Errors of the provider in the operations without a try\<close>

text \<open>
  C6. createChatSession, generateContent and generateImage catch nothing: when the
  provider throws \<open>e\<close> at the request the operation hands it, the operation throws
  that same \<open>e\<close>; the request was the only one sent (no second attempt), and
  nothing was logged.
\<close>

theorem uncaught_errors_propagate:
  assumes "uncaught c"
    and "provider_answer P (length (sent w)) (last (sent (snd (exec P reader c w)))) = Inl e"
  shows "fst (exec P reader c w) = Inl e \<and>
         butlast (sent (snd (exec P reader c w))) = sent w \<and>
         console (snd (exec P reader c w)) = console w"
proof -
  from exec_uncaught [OF assms(1), of P reader w] obtain ob where
    ob: "sent (snd (exec P reader c w)) = sent w @ [ob]"
        "fst (exec P reader c w) = provider_answer P (length (sent w)) ob"
        "console (snd (exec P reader c w)) = console w"
    by blast
  from ob(1) have "last (sent (snd (exec P reader c w))) = ob" by simp
  with assms(2) ob show ?thesis by simp
qed

text \<open>
  C6 at one input: generateImage in front of a provider that rejects.
\<close>

theorem uncaught_errors_propagate_witness:
  "uncaught (GenerateImage ''a red bicycle'') \<and>
   provider_answer failing_provider 0
     (last (sent (snd (exec failing_provider failing_reader (GenerateImage ''a red bicycle'')
                         (init None)))))
     = Inl ''quota exceeded'' \<and>
   fst (exec failing_provider failing_reader (GenerateImage ''a red bicycle'') (init None)) =
     Inl ''quota exceeded'' \<and>
   butlast (sent (snd (exec failing_provider failing_reader (GenerateImage ''a red bicycle'')
                         (init None)))) = [] \<and>
   console (snd (exec failing_provider failing_reader (GenerateImage ''a red bicycle'')
                   (init None))) = []"
  using uncaught_errors_propagate
          [of "GenerateImage ''a red bicycle''" failing_provider "init None" failing_reader
              "''quota exceeded''"]
  by (simp add: generateImage_def getAi_def init_def GoogleGenAI_new_def Let_def
        failing_provider_def)

subsection \<open>The client is constructed at most once\<close>

lemma getAi_made:
  "client_state key True w \<Longrightarrow> getAi w = (GoogleGenAI_new key 0, w)"
  by (simp add: client_state_def getAi_cases)

lemma getAi_unmade:
  "client_state key False w \<Longrightarrow>
   getAi w = (GoogleGenAI_new key 0, w\<lparr>ai := Some (GoogleGenAI_new key 0), constructed := 1\<rparr>)"
  by (simp add: client_state_def getAi_cases)

lemma getAi_client_state:
  "client_state key made w \<Longrightarrow>
   fst (getAi w) = GoogleGenAI_new key 0 \<and> client_state key True (snd (getAi w))"
  by (cases made) (simp_all add: getAi_made getAi_unmade, simp_all add: client_state_def)

lemma client_state_sent:
  "client_state key True w1 \<Longrightarrow> client_of ob = GoogleGenAI_new key 0 \<Longrightarrow>
   client_state key True (w1\<lparr>sent := sent w1 @ [ob]\<rparr>)"
  by (simp add: client_state_def)

lemma client_state_console:
  "client_state key made w1 \<Longrightarrow> client_state key made (w1\<lparr>console := l\<rparr>)"
  by (simp add: client_state_def)

lemma exec_client_state:
  assumes "client_state key made w"
  shows "client_state key (made \<or> calls_getAi reader c) (snd (exec P reader c w))"
proof -
  note g = getAi_client_state [OF assms]
  have s: "sent (snd (getAi w)) = sent w" by (rule getAi_sent)
  show ?thesis
  proof (cases c)
    case (CreateChatSession m h)
    with g s show ?thesis
      using client_state_sent [of key "snd (getAi w)"]
      by (simp add: createChatSession_eq Let_def)
  next
    case (GenerateContent m ps)
    with g s show ?thesis
      using client_state_sent [of key "snd (getAi w)"]
      by (simp add: generateContent_eq Let_def)
  next
    case (GenerateImage p)
    with g s show ?thesis
      using client_state_sent [of key "snd (getAi w)"]
      by (simp add: generateImage_eq Let_def)
  next
    case (TranscribeAudio b)
    show ?thesis
    proof (cases "reader b")
      case (Failed ev)
      with TranscribeAudio assms show ?thesis
        by (simp add: transcribeAudio_failed_read blobToBase64_def client_state_console)
    next
      case (Loaded u)
      with TranscribeAudio g s show ?thesis
        using client_state_sent [of key "snd (getAi w)"]
        by (simp add: transcribeAudio_loaded blobToBase64_def Let_def client_state_console
              split: sum.split)
    qed
  qed
qed

lemma runs_client_state:
  "client_state key made w \<Longrightarrow>
   client_state key (made \<or> list_ex (calls_getAi reader) cs) (runs P reader cs w)"
proof (induction cs arbitrary: made w)
  case Nil
  then show ?case by simp
next
  case (Cons c cs)
  from Cons.IH [OF exec_client_state [OF Cons.prems, of reader c P]]
  show ?case by (simp add: disj_assoc)
qed

lemma init_client_state: "client_state key False (init key)"
  by (simp add: client_state_def init_def)

text \<open>
  C7, as the code has it. After any sequence of invocations from the freshly loaded
  module: if some invocation got as far as \<open>getAi()\<close> (every createChatSession,
  generateContent and generateImage does; a transcribeAudio does when its encoding
  succeeded), then exactly one client has been constructed, it is the first one ever
  constructed, it is the value of \<open>ai\<close>, and a further \<open>getAi()\<close> returns it and
  changes nothing; otherwise no client has been constructed. Every request sent went
  through that one client. So there is never more than one client.
\<close>

theorem client_constructed_once:
  "(let w = runs P reader cs (init key); h = GoogleGenAI_new key 0
    in (if list_ex (calls_getAi reader) cs
        then constructed w = 1 \<and> ai w = Some h \<and> getAi w = (h, w)
        else constructed w = 0 \<and> ai w = None) \<and>
       list_all (\<lambda>ob. client_of ob = h) (sent w))"
proof -
  have inv: "client_state key (list_ex (calls_getAi reader) cs) (runs P reader cs (init key))"
    using runs_client_state [OF init_client_state, of key reader cs P] by simp
  show ?thesis
  proof (cases "list_ex (calls_getAi reader) cs")
    case True
    with inv have m: "client_state key True (runs P reader cs (init key))" by simp
    from getAi_made [OF m] m True show ?thesis
      by (simp add: Let_def client_state_def)
  next
    case False
    with inv show ?thesis by (simp add: Let_def client_state_def)
  qed
qed

text \<open>
  C7 as stated fails when the first invocation is a transcribeAudio whose encoding
  fails: it returns before \<open>getAi()\<close>, so after the first invocation of an adapter
  operation no client has been constructed; the second invocation constructs it.
\<close>

theorem first_invocation_constructs_nothing:
  "constructed (snd (exec failing_provider failing_reader (TranscribeAudio ogg_blob) (init None))) = 0 \<and>
   ai (snd (exec failing_provider failing_reader (TranscribeAudio ogg_blob) (init None))) = None \<and>
   constructed (runs failing_provider failing_reader
                  [TranscribeAudio ogg_blob, GenerateImage ''a red bicycle''] (init None)) = 1"
  by (simp add: transcribeAudio_failed_read failing_reader_def generateImage_eq Let_def
        getAi_cases init_def)

subsection \<open>The request is a function of the arguments\<close>

text \<open>
  C10. What an invocation sends does not depend on the module state or on what the
  provider answers: the same invocation, in any two states and in front of any two
  providers, sends requests with equal payloads. (For transcribeAudio the payload holds
  what the host's reader makes of the blob; the reader is the same function of the blob
  in both runs.)
\<close>

theorem request_payload_deterministic:
  "emitted P reader c w = emitted P' reader c w'"
proof (cases c)
  case (TranscribeAudio b)
  then show ?thesis
    by (cases "reader b")
       (simp_all add: emitted_def transcribeAudio_failed_read transcribeAudio_loaded Let_def
          split: sum.split)
qed (simp_all add: emitted_def createChatSession_eq generateContent_eq generateImage_eq Let_def)

end
